theory Spec2Isabelle
  imports Complex_Main "HOL-Library.Word"
begin

section \<open>The radial two-focus HSL adjuster of ImgCurv.py\<close>

text \<open>
  The embedding follows \<^verbatim>\<open>apply_circular_gradient_hsl_curves\<close> in
  \<^verbatim>\<open>src/ImgCurv.py\<close>. The source computes in IEEE double
  precision; here every float64 quantity is a \<^typ>\<open>real\<close>, so rounding error,
  infinities and NaN are not represented. The only place where this changes a finite
  result is a division by zero: numpy yields \<open>inf\<close> or \<open>nan\<close> where HOL yields
  \<open>0\<close>. Such divisions occur only for \<open>gradient_radius_px = 0\<close>; the colour
  conversions never divide by zero on inputs in the unit cube. The 8-bit input and output
  buffers are \<^typ>\<open>8 word\<close>.
\<close>

subsection \<open>Numeric primitives of Python and numpy\<close>

definition py_mod :: "real \<Rightarrow> real \<Rightarrow> real" where
  \<comment> \<open>Python's float \<open>%\<close>: the result takes the sign of the divisor.\<close>
  "py_mod a b = a - b * of_int \<lfloor>a / b\<rfloor>"

definition py_int :: "real \<Rightarrow> int" where
  \<comment> \<open>Python's \<open>int(float)\<close>: truncation toward zero.\<close>
  "py_int v = (if 0 \<le> v then \<lfloor>v\<rfloor> else \<lceil>v\<rceil>)"

definition np_clip :: "real \<Rightarrow> real \<Rightarrow> real \<Rightarrow> real" where
  \<comment> \<open>\<open>np.clip(a, a_min, a_max)\<close> is \<open>minimum(a_max, maximum(a, a_min))\<close>.\<close>
  "np_clip a a_min a_max = min a_max (max a a_min)"

definition to_uint8 :: "real \<Rightarrow> 8 word" where
  \<comment> \<open>Storing a float into a \<open>uint8\<close> array: the C cast truncates toward zero and
      keeps the low eight bits.\<close>
  "to_uint8 v = word_of_int (py_int v)"

subsection \<open>Configuration and images\<close>

record config =
  red_center_percent :: "real \<times> real"
  blue_center_percent :: "real \<times> real"
  gradient_radius_px :: real
  max_hue_shift_deg :: real
  max_saturation_adjust :: real
  max_lightness_adjust :: real
  red_mix_hue_deg :: real
  blue_mix_hue_deg :: real
  secondary_mix_factor :: real

definition default_config :: config where
  "default_config =
     \<lparr>red_center_percent = (0.1, 0.9), blue_center_percent = (0.9, 0.1),
      gradient_radius_px = 200, max_hue_shift_deg = 30,
      max_saturation_adjust = 0.2, max_lightness_adjust = 0.1,
      red_mix_hue_deg = 0, blue_mix_hue_deg = 240, secondary_mix_factor = 0.5\<rparr>"

type_synonym rgb8 = "8 word \<times> 8 word \<times> 8 word"
type_synonym image8 = "rgb8 list list"
type_synonym triple = "real \<times> real \<times> real"

datatype error = FileNotFoundError

definition Image_open :: "(string \<rightharpoonup> image8) \<Rightarrow> string \<Rightarrow> error + image8" where
  \<comment> \<open>\<open>Image.open(image_path).convert("RGB")\<close>: the files are a map from paths to
      decoded rows of RGB pixels; a missing path raises.\<close>
  "Image_open files image_path =
     (case files image_path of None \<Rightarrow> Inl FileNotFoundError | Some img \<Rightarrow> Inr img)"

definition height_of :: "'a list list \<Rightarrow> nat" where
  "height_of img = length img"

definition width_of :: "'a list list \<Rightarrow> nat" where
  "width_of img = (case img of [] \<Rightarrow> 0 | row # _ \<Rightarrow> length row)"

definition normalize :: "rgb8 \<Rightarrow> triple" where
  \<comment> \<open>\<open>np.array(img_rgb) / 255.0\<close>\<close>
  "normalize p = (case p of (r, g, b) \<Rightarrow>
     (real (unat r) / 255, real (unat g) / 255, real (unat b) / 255))"

subsection \<open>Colour conversion\<close>

definition rgb_to_hsl :: "real \<Rightarrow> real \<Rightarrow> real \<Rightarrow> triple" where
  "rgb_to_hsl r g b =
     (let max_val = max r (max g b);
          min_val = min r (min g b);
          l = (max_val + min_val) / 2
      in if max_val = min_val then (0 * 360, 0, l)
         else
           let d = max_val - min_val;
               s = (if l > 0.5 then d / (2 - max_val - min_val) else d / (max_val + min_val));
               h = (if max_val = r then (g - b) / d + (if g < b then 0 else 6)
                    else if max_val = g then (b - r) / d + 2
                    else if max_val = b then (r - g) / d + 4
                    else 0)
           in (h / 6 * 360, s, l))"

definition hsl_to_rgb :: "real \<Rightarrow> real \<Rightarrow> real \<Rightarrow> triple" where
  "hsl_to_rgb h s l =
     (let c = (1 - \<bar>2 * l - 1\<bar>) * s;
          x = c * (1 - \<bar>py_mod (h / 60) 2 - 1\<bar>);
          m = l - c / 2;
          h' = py_mod h 360;
          rgb = (if 0 \<le> h' \<and> h' < 60 then (c, x, 0)
                 else if 60 \<le> h' \<and> h' < 120 then (x, c, 0)
                 else if 120 \<le> h' \<and> h' < 180 then (0, c, x)
                 else if 180 \<le> h' \<and> h' < 240 then (0, x, c)
                 else if 240 \<le> h' \<and> h' < 300 then (x, 0, c)
                 else if 300 \<le> h' \<and> h' < 360 then (c, 0, x)
                 else (0, 0, 0))
      in case rgb of (r, g, b) \<Rightarrow> ((r + m) * 255, (g + m) * 255, (b + m) * 255))"

subsection \<open>Influence fields\<close>

definition center_px :: "real \<times> real \<Rightarrow> nat \<Rightarrow> nat \<Rightarrow> int \<times> int" where
  \<comment> \<open>\<open>(int(percent[0] * width), int(percent[1] * height))\<close>\<close>
  "center_px percent width height =
     (py_int (fst percent * real width), py_int (snd percent * real height))"

definition dist_to_center :: "int \<times> int \<Rightarrow> nat \<Rightarrow> nat \<Rightarrow> real" where
  \<comment> \<open>\<open>np.sqrt((x_coords - c[0])**2 + (y_coords - c[1])**2)\<close> at column x, row y\<close>
  "dist_to_center c x y = sqrt (of_int ((int x - fst c)\<^sup>2 + (int y - snd c)\<^sup>2))"

definition weight :: "int \<times> int \<Rightarrow> real \<Rightarrow> nat \<Rightarrow> nat \<Rightarrow> real" where
  "weight c radius x y = np_clip (1 - dist_to_center c x y / radius) 0 1"

definition weight_red :: "config \<Rightarrow> nat \<Rightarrow> nat \<Rightarrow> nat \<Rightarrow> nat \<Rightarrow> real" where
  "weight_red cfg width height x y =
     weight (center_px (red_center_percent cfg) width height) (gradient_radius_px cfg) x y"

definition weight_blue :: "config \<Rightarrow> nat \<Rightarrow> nat \<Rightarrow> nat \<Rightarrow> nat \<Rightarrow> real" where
  "weight_blue cfg width height x y =
     weight (center_px (blue_center_percent cfg) width height) (gradient_radius_px cfg) x y"

definition total_weight_influence :: "config \<Rightarrow> nat \<Rightarrow> nat \<Rightarrow> nat \<Rightarrow> nat \<Rightarrow> real" where
  "total_weight_influence cfg width height x y =
     np_clip (weight_red cfg width height x y + weight_blue cfg width height x y) 0 1"

subsection \<open>The adjustment of one pixel\<close>

definition target_hue :: "config \<Rightarrow> real \<Rightarrow> real \<Rightarrow> real" where
  "target_hue cfg red_influence blue_influence =
     (if red_influence > blue_influence then red_mix_hue_deg cfg else blue_mix_hue_deg cfg)"

definition influence_sign :: "real \<Rightarrow> real \<Rightarrow> real" where
  \<comment> \<open>\<open>(1 if red_influence > blue_influence else -1)\<close>\<close>
  "influence_sign red_influence blue_influence =
     (if red_influence > blue_influence then 1 else - 1)"

definition adjust_pixel :: "config \<Rightarrow> real \<Rightarrow> real \<Rightarrow> real \<Rightarrow> triple \<Rightarrow> triple" where
  \<comment> \<open>The body of the second loop; \<open>total_w\<close> is \<open>total_weight_influence[y, x]\<close>.\<close>
  "adjust_pixel cfg red_influence blue_influence total_w hsl =
     (case hsl of (h, s, l) \<Rightarrow>
       let hue_mix_factor = red_influence * secondary_mix_factor cfg
                            + blue_influence * secondary_mix_factor cfg;
           h_adjusted = py_mod (h + (target_hue cfg red_influence blue_influence - h) * total_w
                                    * (max_hue_shift_deg cfg / 360)) 360;
           s_adjusted = np_clip (s + total_w * max_saturation_adjust cfg
                                    * influence_sign red_influence blue_influence) 0 1;
           l_adjusted = np_clip (l + total_w * max_lightness_adjust cfg
                                    * influence_sign red_influence blue_influence) 0 1
       in (h_adjusted, s_adjusted, l_adjusted))"

definition adjust_at :: "config \<Rightarrow> nat \<Rightarrow> nat \<Rightarrow> nat \<Rightarrow> nat \<Rightarrow> triple \<Rightarrow> triple" where
  "adjust_at cfg width height x y hsl =
     adjust_pixel cfg (weight_red cfg width height x y) (weight_blue cfg width height x y)
       (total_weight_influence cfg width height x y) hsl"

subsection \<open>The pipeline\<close>

definition store_rgb :: "triple \<Rightarrow> rgb8" where
  \<comment> \<open>\<open>processed_rgb_uint8[y, x] = hsl_to_rgb(...)\<close>\<close>
  "store_rgb t = (case t of (r, g, b) \<Rightarrow> (to_uint8 r, to_uint8 g, to_uint8 b))"

text \<open>
  The source runs three loops over all pixels, one after the other: RGB to HSL (lines
  60 to 62), the adjustment (lines 87 to 110) and HSL to RGB with the store (lines 130 to
  132). Each loop writes position \<open>(y, x)\<close> from position \<open>(y, x)\<close> of the previous
  buffer and the weight arrays only, so the three bodies are composed per pixel here.
\<close>

definition process_pixel :: "config \<Rightarrow> nat \<Rightarrow> nat \<Rightarrow> nat \<Rightarrow> nat \<Rightarrow> triple \<Rightarrow> rgb8" where
  "process_pixel cfg width height x y rgb =
     (case rgb of (r, g, b) \<Rightarrow>
        case adjust_at cfg width height x y (rgb_to_hsl r g b) of
          (h, s, l) \<Rightarrow> store_rgb (hsl_to_rgb h s l))"

definition process_rows :: "config \<Rightarrow> triple list list \<Rightarrow> image8" where
  \<comment> \<open>\<open>for y in range(height): for x in range(width)\<close> over the rows of the image\<close>
  "process_rows cfg pixels_rgb =
     (let width = width_of pixels_rgb; height = height_of pixels_rgb
      in map (\<lambda>(y, row). map (\<lambda>(x, p). process_pixel cfg width height x y p)
                              (enumerate 0 row))
             (enumerate 0 pixels_rgb))"

definition apply_circular_gradient_hsl_curves ::
    "(string \<rightharpoonup> image8) \<Rightarrow> string \<Rightarrow> config \<Rightarrow> error + (triple list list \<times> image8)" where
  "apply_circular_gradient_hsl_curves files image_path cfg =
     (case Image_open files image_path of
        Inl e \<Rightarrow> Inl e
      | Inr img_rgb \<Rightarrow>
          let pixels_rgb = map (map normalize) img_rgb
          in Inr (pixels_rgb, process_rows cfg pixels_rgb))"

subsection \<open>The quantisation the specification describes\<close>




subsection \<open>Predicates used in the statements\<close>


definition scenario_config :: config where
  \<comment> \<open>The 4 by 4 scenario: foci at pixels (0,0) and (3,3), radius 4.\<close>
  "scenario_config =
     \<lparr>red_center_percent = (0, 0), blue_center_percent = (0.75, 0.75),
      gradient_radius_px = 4, max_hue_shift_deg = 30,
      max_saturation_adjust = 0.2, max_lightness_adjust = 0.1,
      red_mix_hue_deg = 0, blue_mix_hue_deg = 240, secondary_mix_factor = 0.5\<rparr>"

definition far_config :: config where
  \<comment> \<open>Both foci at pixel (0,0) with radius 2.\<close>
  "far_config = default_config\<lparr>red_center_percent := (0, 0), blue_center_percent := (0, 0),
                                gradient_radius_px := 2\<rparr>"



definition sector_rgb :: "int \<Rightarrow> real \<Rightarrow> real \<Rightarrow> real \<Rightarrow> triple" where
  \<comment> \<open>What \<open>hsl_to_rgb\<close> returns in sector \<open>j\<close> at offset \<open>t\<close>, for chroma \<open>c\<close> and match \<open>m\<close>.\<close>
  "sector_rgb j t c m =
     (let x = (if even j then c * t else c * (1 - t));
          rgb = (if j = 0 then (c, x, 0) else if j = 1 then (x, c, 0)
                 else if j = 2 then (0, c, x) else if j = 3 then (0, x, c)
                 else if j = 4 then (x, 0, c) else (c, 0, x))
      in case rgb of (r, g, b) \<Rightarrow> ((r + m) * 255, (g + m) * 255, (b + m) * 255))"

definition saturation_of :: "real \<Rightarrow> real \<Rightarrow> real" where
  \<comment> \<open>The saturation \<open>rgb_to_hsl\<close> assigns to a chromatic pixel with extremes \<open>mx\<close>, \<open>mn\<close>.\<close>
  "saturation_of mx mn =
     (if (mx + mn) / 2 > 0.5 then (mx - mn) / (2 - mx - mn) else (mx - mn) / (mx + mn))"

section \<open>Properties\<close>

subsection \<open>The unused mixing factor\<close>

lemma adjust_pixel_mix_update:
  "adjust_pixel (cfg\<lparr>secondary_mix_factor := a\<rparr>) wr wb tw hsl = adjust_pixel cfg wr wb tw hsl"
  by (cases hsl) (simp add: adjust_pixel_def target_hue_def Let_def)

lemma adjust_at_mix_update:
  "adjust_at (cfg\<lparr>secondary_mix_factor := a\<rparr>) w h x y hsl = adjust_at cfg w h x y hsl"
  by (simp add: adjust_at_def adjust_pixel_mix_update weight_red_def weight_blue_def
      total_weight_influence_def)

lemma process_pixel_mix_update:
  "process_pixel (cfg\<lparr>secondary_mix_factor := a\<rparr>) w h x y p = process_pixel cfg w h x y p"
  by (simp add: process_pixel_def adjust_at_mix_update)

lemma process_rows_mix_update:
  "process_rows (cfg\<lparr>secondary_mix_factor := a\<rparr>) rows = process_rows cfg rows"
  by (simp add: process_rows_def process_pixel_mix_update)

lemma run_mix_update:
  "apply_circular_gradient_hsl_curves files image_path (cfg\<lparr>secondary_mix_factor := a\<rparr>)
   = apply_circular_gradient_hsl_curves files image_path cfg"
  by (simp add: apply_circular_gradient_hsl_curves_def process_rows_mix_update Let_def
      split: sum.split)

text \<open>
  C6. The parameter \<open>secondary_mix_factor\<close> is inert: for every set of files, every
  path and every configuration, two runs that differ only in that parameter return the
  same result.
\<close>

theorem secondary_mix_factor_inert:
  "apply_circular_gradient_hsl_curves files image_path (cfg\<lparr>secondary_mix_factor := a\<rparr>)
   = apply_circular_gradient_hsl_curves files image_path (cfg\<lparr>secondary_mix_factor := b\<rparr>)"
  by (simp only: run_mix_update)


subsection \<open>Influence weights\<close>


lemma dist_nonneg: "0 \<le> dist_to_center c x y"
  by (simp add: dist_to_center_def)









subsection \<open>Float remainder and the range of the conversions\<close>


lemma py_mod_id:
  assumes "0 \<le> a" "a < b"
  shows "py_mod a b = a"
proof -
  have "\<lfloor>a / b\<rfloor> = 0" using assms by (simp add: floor_eq_iff)
  then show ?thesis by (simp add: py_mod_def)
qed

lemma py_mod_shift:
  assumes "0 < b" "of_int k * b \<le> a" "a < (of_int k + 1) * b"
  shows "py_mod a b = a - of_int k * b"
proof -
  have "\<lfloor>a / b\<rfloor> = k" using assms by (simp add: floor_eq_iff le_divide_eq divide_less_eq)
  then show ?thesis by (simp add: py_mod_def mult.commute)
qed



lemma rgb_to_hsl_l:
  assumes "0 \<le> r" "r \<le> 1" "0 \<le> g" "g \<le> 1" "0 \<le> b" "b \<le> 1"
  shows "0 \<le> snd (snd (rgb_to_hsl r g b))" "snd (snd (rgb_to_hsl r g b)) \<le> 1"
  using assms by (auto simp: rgb_to_hsl_def Let_def)

lemma rgb_to_hsl_s:
  assumes "0 \<le> r" "r \<le> 1" "0 \<le> g" "g \<le> 1" "0 \<le> b" "b \<le> 1"
  shows "0 \<le> fst (snd (rgb_to_hsl r g b))" "fst (snd (rgb_to_hsl r g b)) \<le> 1"
proof -
  define mx where "mx = max r (max g b)"
  define mn where "mn = min r (min g b)"
  have b: "0 \<le> mn" "mn \<le> mx" "mx \<le> 1" using assms by (auto simp: mx_def mn_def)
  have s: "fst (snd (rgb_to_hsl r g b)) =
     (if mx = mn then 0
      else if (mx + mn) / 2 > 0.5 then (mx - mn) / (2 - mx - mn) else (mx - mn) / (mx + mn))"
    by (simp add: rgb_to_hsl_def Let_def mx_def mn_def)
  show "0 \<le> fst (snd (rgb_to_hsl r g b))"
    unfolding s using b by (auto intro!: divide_nonneg_nonneg)
  show "fst (snd (rgb_to_hsl r g b)) \<le> 1"
    unfolding s using b by (auto simp: divide_le_eq)
qed






subsection \<open>Ties between the two foci\<close>

lemma default_2x2_weights:
  "weight_red default_config 2 2 0 0 = 199/200" "weight_blue default_config 2 2 0 0 = 199/200"
  by (simp_all add: weight_red_def weight_blue_def default_config_def center_px_def py_int_def
      weight_def dist_to_center_def np_clip_def)

text \<open>
  C2, as the code has it. Both the target hue and the sign are chosen by the strict test
  \<open>red_influence > blue_influence\<close>, which is false on a tie. So wherever the two
  weights are equal the blue focus is dominant: the target hue is the blue focus's, the
  saturation and lightness sign is \<open>-1\<close>, and the adjusted pixel is the one computed
  with that hue and that sign.
\<close>

theorem tie_goes_to_blue:
  "weight_red cfg width height x y = weight_blue cfg width height x y \<Longrightarrow>
   target_hue cfg (weight_red cfg width height x y) (weight_blue cfg width height x y)
     = blue_mix_hue_deg cfg
   \<and> influence_sign (weight_red cfg width height x y) (weight_blue cfg width height x y) = - 1
   \<and> adjust_at cfg width height x y (h, s, l)
     = (py_mod (h + (blue_mix_hue_deg cfg - h) * total_weight_influence cfg width height x y
                    * (max_hue_shift_deg cfg / 360)) 360,
        np_clip (s + total_weight_influence cfg width height x y
                    * max_saturation_adjust cfg * (- 1)) 0 1,
        np_clip (l + total_weight_influence cfg width height x y
                    * max_lightness_adjust cfg * (- 1)) 0 1)"
  by (simp add: adjust_at_def adjust_pixel_def target_hue_def influence_sign_def Let_def)

theorem tie_goes_to_blue_witness:
  "weight_red default_config 2 2 0 0 = weight_blue default_config 2 2 0 0
   \<and> target_hue default_config (weight_red default_config 2 2 0 0)
        (weight_blue default_config 2 2 0 0) = blue_mix_hue_deg default_config
   \<and> influence_sign (weight_red default_config 2 2 0 0)
        (weight_blue default_config 2 2 0 0) = - 1
   \<and> adjust_at default_config 2 2 0 0 (0, 0, 1/2) = (20, 0, 2/5)"
proof -
  have tw: "total_weight_influence default_config 2 2 0 0 = 1"
    by (simp add: total_weight_influence_def default_2x2_weights np_clip_def)
  have e: "(py_mod (0 + (blue_mix_hue_deg default_config - 0) * 1
                      * (max_hue_shift_deg default_config / 360)) 360,
            np_clip (0 + 1 * max_saturation_adjust default_config * (- 1)) 0 1,
            np_clip (1/2 + 1 * max_lightness_adjust default_config * (- 1)) 0 1)
           = (20, 0, 2/5)"
    by (simp add: default_config_def py_mod_def np_clip_def)
  show ?thesis
    using tie_goes_to_blue [of default_config 2 2 0 0 0 0 "1/2"]
    by (simp only: default_2x2_weights tw e)
qed

text \<open>
  The pixel (0,0) of a 2 by 2 image under the default configuration is at distance 1
  from both centres, (0,1) and (1,0). The weights are equal there, yet the target hue is
  not the red focus's and the sign is not \<open>+1\<close>.
\<close>

theorem tie_red_counterexample:
  "weight_red default_config 2 2 0 0 = weight_blue default_config 2 2 0 0
   \<and> target_hue default_config (weight_red default_config 2 2 0 0)
        (weight_blue default_config 2 2 0 0) \<noteq> red_mix_hue_deg default_config
   \<and> influence_sign (weight_red default_config 2 2 0 0)
        (weight_blue default_config 2 2 0 0) \<noteq> 1"
proof -
  have "target_hue default_config (199/200) (199/200) = 240"
    by (simp add: target_hue_def default_config_def)
  moreover have "red_mix_hue_deg default_config = 0"
    by (simp add: default_config_def)
  moreover have "influence_sign (199/200) (199/200) = - 1"
    by (simp add: influence_sign_def)
  ultimately show ?thesis
    by (simp only: default_2x2_weights) simp
qed

subsection \<open>Pixels outside both radii\<close>

lemma adjust_pixel_zero:
  assumes "0 \<le> h" "h < 360" "0 \<le> s" "s \<le> 1" "0 \<le> l" "l \<le> 1"
  shows "adjust_pixel cfg 0 0 (np_clip (0 + 0) 0 1) (h, s, l) = (h, s, l)"
  using assms by (simp add: adjust_pixel_def np_clip_def py_mod_id Let_def)

lemma far_weights:
  "weight_red far_config 3 3 2 0 = 0" "weight_blue far_config 3 3 2 0 = 0"
  by (simp_all add: weight_red_def weight_blue_def far_config_def default_config_def
      center_px_def py_int_def weight_def dist_to_center_def np_clip_def)

lemma green_hsl: "rgb_to_hsl 0 1 0 = (120, 1, 1/2)"
  by (simp add: rgb_to_hsl_def Let_def)

text \<open>
  C9. A pixel whose two weights are both 0 and whose hue lies in \<open>[0, 360)\<close> is left
  unchanged by the adjustment stage. The pixel's HSL triple is the one computed from its
  RGB value in the unit cube.
\<close>

theorem zero_weight_frame:
  "0 \<le> r \<Longrightarrow> r \<le> 1 \<Longrightarrow> 0 \<le> g \<Longrightarrow> g \<le> 1 \<Longrightarrow> 0 \<le> b \<Longrightarrow> b \<le> 1 \<Longrightarrow>
   rgb_to_hsl r g b = (h, s, l) \<Longrightarrow> 0 \<le> h \<Longrightarrow> h < 360 \<Longrightarrow>
   weight_red cfg width height x y = 0 \<Longrightarrow> weight_blue cfg width height x y = 0 \<Longrightarrow>
   adjust_at cfg width height x y (h, s, l) = (h, s, l)"
proof -
  assume rgb: "0 \<le> r" "r \<le> 1" "0 \<le> g" "g \<le> 1" "0 \<le> b" "b \<le> 1"
    and hsl: "rgb_to_hsl r g b = (h, s, l)"
    and h: "0 \<le> h" "h < 360"
    and w: "weight_red cfg width height x y = 0" "weight_blue cfg width height x y = 0"
  have "0 \<le> s" "s \<le> 1" using rgb_to_hsl_s [OF rgb] hsl by simp_all
  moreover have "0 \<le> l" "l \<le> 1" using rgb_to_hsl_l [OF rgb] hsl by simp_all
  ultimately show ?thesis
    using h adjust_pixel_zero [of h s l cfg]
    by (simp add: adjust_at_def total_weight_influence_def w)
qed

theorem zero_weight_frame_witness:
  "(0::real) \<le> 0 \<and> (0::real) \<le> 1 \<and> (1::real) \<le> 1 
   \<and> rgb_to_hsl 0 1 0 = (120, 1, 1/2) \<and> (0::real) \<le> 120 \<and> (120::real) < 360
   \<and> weight_red far_config 3 3 2 0 = 0 \<and> weight_blue far_config 3 3 2 0 = 0
   \<and> adjust_at far_config 3 3 2 0 (120, 1, 1/2) = (120, 1, 1/2)"
  using zero_weight_frame [of 0 1 0 120 1 "1/2" far_config 3 3 2 0]
  by (simp add: green_hsl far_weights)


subsection \<open>The 4 by 4 scenario\<close>

lemma scenario_centers:
  "center_px (red_center_percent scenario_config) 4 4 = (0, 0)"
  "center_px (blue_center_percent scenario_config) 4 4 = (3, 3)"
  by (simp_all add: center_px_def scenario_config_def py_int_def)

lemma sqrt_18_gt_4: "4 < sqrt 18"
  by (rule real_less_rsqrt) simp

lemma scenario_weight_red: "weight_red scenario_config 4 4 0 0 = 1"
  by (simp add: weight_red_def scenario_centers weight_def dist_to_center_def np_clip_def)

lemma scenario_weight_blue: "weight_blue scenario_config 4 4 0 0 = 0"
proof -
  have "dist_to_center (3, 3) 0 0 = sqrt 18" by (simp add: dist_to_center_def)
  moreover have "gradient_radius_px scenario_config = 4" by (simp add: scenario_config_def)
  ultimately show ?thesis
    using sqrt_18_gt_4
    by (simp add: weight_blue_def scenario_centers weight_def np_clip_def)
qed

lemma gray_hsl: "rgb_to_hsl (1/2) (1/2) (1/2) = (0, 0, 1/2)"
  by (simp add: rgb_to_hsl_def Let_def)

text \<open>
  C5, as the code computes it. In the uniform grey 4 by 4 image with foci at pixels
  (0,0) and (3,3), radius 4, hues 0 and 240 and maxima 30, 0.2 and 0.1, pixel (0,0) has
  red weight 1 and blue weight 0, because its distance to (3,3) is \<open>sqrt 18 > 4\<close>.
  The total is 1, the dominant focus is red with sign \<open>+1\<close>, the hue stays 0, the
  saturation becomes 0.2 and the lightness 0.6.
\<close>

theorem scenario_pixel_00:
  "rgb_to_hsl (1/2) (1/2) (1/2) = (0, 0, 1/2)
   \<and> center_px (red_center_percent scenario_config) 4 4 = (0, 0)
   \<and> center_px (blue_center_percent scenario_config) 4 4 = (3, 3)
   \<and> weight_red scenario_config 4 4 0 0 = 1
   \<and> weight_blue scenario_config 4 4 0 0 = 0
   \<and> total_weight_influence scenario_config 4 4 0 0 = 1
   \<and> target_hue scenario_config (weight_red scenario_config 4 4 0 0)
        (weight_blue scenario_config 4 4 0 0) = red_mix_hue_deg scenario_config
   \<and> influence_sign (weight_red scenario_config 4 4 0 0)
        (weight_blue scenario_config 4 4 0 0) = 1
   \<and> adjust_at scenario_config 4 4 0 0 (0, 0, 1/2) = (0, 1/5, 3/5)"
proof -
  have t: "total_weight_influence scenario_config 4 4 0 0 = 1"
    by (simp add: total_weight_influence_def scenario_weight_red scenario_weight_blue np_clip_def)
  have a: "adjust_pixel scenario_config 1 0 1 (0, 0, 1/2) = (0, 1/5, 3/5)"
    by (simp add: adjust_pixel_def target_hue_def influence_sign_def scenario_config_def
        np_clip_def py_mod_def Let_def)
  show ?thesis
    by (simp add: gray_hsl scenario_centers scenario_weight_red scenario_weight_blue t
        target_hue_def influence_sign_def adjust_at_def a)
qed

text \<open>
  The blue weight at pixel (0,0) is exactly 0, which is not within 0.1 of 0.19.
\<close>

theorem scenario_blue_weight_counterexample:
  "weight_blue scenario_config 4 4 0 0 = 0
   \<and> \<not> \<bar>weight_blue scenario_config 4 4 0 0 - 19/100\<bar> \<le> 1/10"
  by (simp add: scenario_weight_blue)

subsection \<open>The range of hue\<close>


lemma magenta_side: "normalize (255, 0, 51) = (1, 0, 1/5) \<and> rgb_to_hsl 1 0 (1/5) = (- 12, 1, 1/2)"
  by (simp add: normalize_def rgb_to_hsl_def Let_def)

text \<open>
  C8 at the pixel (255, 0, 0). The hue of an HSL triple is to lie in \<open>[0, 360)\<close>, but
  pure red is converted to hue 360: in the branch for a red maximum the offset 6 is added
  when \<open>g < b\<close> is false, so the hue is not brought back below 360.
\<close>

theorem pure_red_hue_is_360:
  "normalize (255, 0, 0) = (1, 0, 0) \<and> rgb_to_hsl 1 0 0 = (360, 1, 1/2)
   \<and> \<not> fst (rgb_to_hsl 1 0 0) < 360"
  by (simp add: normalize_def rgb_to_hsl_def Let_def)


subsection \<open>Configuration values are not checked\<close>



lemma missing_file_raises: "files image_path = None \<Longrightarrow>
   apply_circular_gradient_hsl_curves files image_path cfg = Inl FileNotFoundError"
  by (simp add: apply_circular_gradient_hsl_curves_def Image_open_def)







subsection \<open>The store into the 8-bit buffer\<close>









subsection \<open>The round trip through HSL\<close>

text \<open>
  A hue \<open>360 k + 60 (j + t)\<close> with \<open>0 \<le> t < 1\<close> falls into sector \<open>j\<close> whatever
  the number \<open>k\<close> of full turns is, because both remainders in \<open>hsl_to_rgb\<close> discard
  full turns. This is why hues outside \<open>[0, 360)\<close> do not disturb the inverse.
\<close>

lemma py_mod_360_sector:
  assumes "0 \<le> t" "t < 1" "0 \<le> j" "j \<le> 5"
    and "h = 360 * of_int k + 60 * (of_int j + t)"
  shows "py_mod h 360 = 60 * (of_int j + t)"
proof -
  have "of_int j + t < 6" using assms by linarith
  moreover have "0 \<le> of_int j + t" using assms by simp
  ultimately have "of_int k * 360 \<le> h" "h < (of_int k + 1) * 360"
    using assms(5) by (simp_all add: algebra_simps)
  then have "py_mod h 360 = h - of_int k * 360" by (intro py_mod_shift) simp_all
  then show ?thesis using assms(5) by simp
qed

lemma py_mod_2_sector:
  assumes "0 \<le> t" "t < 1"
    and "h = 360 * of_int k + 60 * (of_int j + t)"
  shows "py_mod (h / 60) 2 = of_int (j mod 2) + t"
proof -
  define q where "q = 3 * k + j div 2"
  have j: "j = 2 * (j div 2) + j mod 2" by simp
  have "real_of_int j = 2 * of_int (j div 2) + of_int (j mod 2)"
    by (metis j of_int_add of_int_mult of_int_numeral)
  then have h60: "h / 60 = 2 * of_int q + (of_int (j mod 2) + t)"
    using assms(3) by (simp add: q_def)
  have "0 \<le> j mod 2" "j mod 2 < 2" by simp_all
  then have "0 \<le> real_of_int (j mod 2)" "real_of_int (j mod 2) \<le> 1"
    by simp_all
  then have "of_int q * 2 \<le> h / 60" "h / 60 < (of_int q + 1) * 2"
    using assms(1,2) h60 by (simp_all add: algebra_simps)
  then have pm: "py_mod (h / 60) 2 = h / 60 - of_int q * 2" by (intro py_mod_shift) simp_all
  have e: "h / 60 - of_int q * 2 = of_int (j mod 2) + t" by (simp only: h60)
  from pm e show ?thesis by (rule trans)
qed

lemma hsl_to_rgb_sector:
  assumes t: "0 \<le> t" "t < 1" and j: "0 \<le> j" "j \<le> 5"
    and h: "h = 360 * of_int k + 60 * (of_int j + t)"
  shows "hsl_to_rgb h s l = sector_rgb j t ((1 - \<bar>2 * l - 1\<bar>) * s) (l - (1 - \<bar>2 * l - 1\<bar>) * s / 2)"
proof -
  have m360: "py_mod h 360 = 60 * (of_int j + t)"
    using t j h by (rule py_mod_360_sector)
  have m2: "py_mod (h / 60) 2 = of_int (j mod 2) + t"
    using t h by (rule py_mod_2_sector)
  consider "j = 0" | "j = 1" | "j = 2" | "j = 3" | "j = 4" | "j = 5"
    using j by linarith
  then show ?thesis
  proof cases
    case 1 then show ?thesis using t by (simp add: hsl_to_rgb_def m360 m2 sector_rgb_def Let_def)
  next
    case 2 then show ?thesis using t by (simp add: hsl_to_rgb_def m360 m2 sector_rgb_def Let_def)
  next
    case 3 then show ?thesis using t by (simp add: hsl_to_rgb_def m360 m2 sector_rgb_def Let_def)
  next
    case 4 then show ?thesis using t by (simp add: hsl_to_rgb_def m360 m2 sector_rgb_def Let_def)
  next
    case 5 then show ?thesis using t by (simp add: hsl_to_rgb_def m360 m2 sector_rgb_def Let_def)
  next
    case 6 then show ?thesis using t by (simp add: hsl_to_rgb_def m360 m2 sector_rgb_def Let_def)
  qed
qed

lemma chroma_of_saturation:
  assumes "0 \<le> mn" "mn < mx" "mx \<le> 1"
  shows "(1 - \<bar>2 * ((mx + mn) / 2) - 1\<bar>) * saturation_of mx mn = mx - mn"
proof -
  have two: "2 * ((mx + mn) / 2) = mx + mn" by simp
  show ?thesis
  proof (cases "(mx + mn) / 2 > 0.5")
    case True
    then have a: "\<bar>mx + mn - 1\<bar> = mx + mn - 1" by simp
    have nz: "2 - mx - mn \<noteq> 0" using assms by simp
    have s: "saturation_of mx mn = (mx - mn) / (2 - mx - mn)"
      using True by (simp add: saturation_of_def)
    have "(1 - (mx + mn - 1)) * ((mx - mn) / (2 - mx - mn)) = mx - mn"
      using nz by (simp add: field_simps)
    then show ?thesis by (simp only: two a s)
  next
    case False
    then have a: "\<bar>mx + mn - 1\<bar> = 1 - (mx + mn)" by simp
    have nz: "mx + mn \<noteq> 0" using assms by simp
    have s: "saturation_of mx mn = (mx - mn) / (mx + mn)"
      using False by (simp add: saturation_of_def)
    have "(1 - (1 - (mx + mn))) * ((mx - mn) / (mx + mn)) = mx - mn"
      using nz by (simp add: field_simps)
    then show ?thesis by (simp only: two a s)
  qed
qed

lemma hsl_to_rgb_of_chroma:
  assumes "0 \<le> mn" "mn < mx" "mx \<le> 1"
    and "0 \<le> t" "t < 1" "0 \<le> j" "j \<le> 5"
    and "h = 360 * of_int k + 60 * (of_int j + t)"
  shows "hsl_to_rgb h (saturation_of mx mn) ((mx + mn) / 2) = sector_rgb j t (mx - mn) mn"
proof -
  have c: "(1 - \<bar>2 * ((mx + mn) / 2) - 1\<bar>) * saturation_of mx mn = mx - mn"
    using assms(1-3) by (rule chroma_of_saturation)
  have m: "(mx + mn) / 2 - (mx - mn) / 2 = mn" by (simp add: field_simps)
  show ?thesis
    using hsl_to_rgb_sector [OF assms(4-8), of "saturation_of mx mn" "(mx + mn) / 2"]
    by (simp only: c m)
qed

lemma rgb_to_hsl_chromatic:
  assumes "mx = max r (max g b)" "mn = min r (min g b)" "mn < mx"
  shows "rgb_to_hsl r g b =
     (60 * (if mx = r then (g - b) / (mx - mn) + (if g < b then 0 else 6)
            else if mx = g then (b - r) / (mx - mn) + 2
            else (r - g) / (mx - mn) + 4),
      saturation_of mx mn, (mx + mn) / 2)"
proof -
  have "mx = r \<or> mx = g \<or> mx = b" using assms(1) by (auto simp: max_def)
  then show ?thesis
    using assms by (auto simp add: rgb_to_hsl_def Let_def saturation_of_def)
qed

lemma roundtrip_exact:
  assumes rng: "0 \<le> r" "r \<le> 1" "0 \<le> g" "g \<le> 1" "0 \<le> b" "b \<le> 1"
    and na: "\<not> (r = g \<and> g = b)"
    and hsl: "rgb_to_hsl r g b = (h, s, l)"
  shows "hsl_to_rgb h s l = (r * 255, g * 255, b * 255)"
proof -
  define mx where "mx = max r (max g b)"
  define mn where "mn = min r (min g b)"
  define d where "d = mx - mn"
  have lt: "mn < mx" using na by (auto simp: mx_def mn_def max_def min_def)
  have bnd: "0 \<le> mn" "mx \<le> 1" using rng by (auto simp: mx_def mn_def)
  have d: "0 < d" using lt by (simp add: d_def)
  note fwd = rgb_to_hsl_chromatic [OF mx_def mn_def lt, folded d_def]
  have sl: "s = saturation_of mx mn" "l = (mx + mn) / 2"
    using hsl fwd by simp_all
  have key: "hsl_to_rgb h s l = (r * 255, g * 255, b * 255)"
    if "0 \<le> t" "t < 1" "0 \<le> j" "j \<le> 5" "h = 360 * of_int k + 60 * (of_int j + t)"
      "sector_rgb j t d mn = (r * 255, g * 255, b * 255)" for t j k
    using hsl_to_rgb_of_chroma [OF bnd(1) lt bnd(2) that(1-5)] that(6)
    by (simp add: sl d_def)
  consider (rg) "g < b" "b \<le> r" | (rb) "b \<le> g" "g < r" | (rr) "g = r" "b < r"
    | (gb) "r < g" "b < r" | (gr) "r < g" "r \<le> b" "b < g" | (gg) "r < g" "b = g"
    | (br) "r < b" "g < b" "r < g" | (bg) "r < b" "g < b" "g \<le> r"
    using na by linarith
  then show ?thesis
  proof cases
    case rg
    then have m: "mx = r" "mn = g" by (simp_all add: mx_def mn_def)
    have dd: "d = r - g" by (simp add: d_def m)
    have h: "h = 60 * ((g - b) / d)" using hsl fwd rg by (simp add: m)
    show ?thesis
    proof (rule key [of "1 + (g - b) / d" 5 "- 1"])
      show "0 \<le> 1 + (g - b) / d" using d rg by (simp add: dd field_simps)
      show "1 + (g - b) / d < 1" using d rg by (simp add: field_simps)
      show "h = 360 * of_int (- 1) + 60 * (of_int 5 + (1 + (g - b) / d))" by (simp add: h)
      show "sector_rgb 5 (1 + (g - b) / d) d mn = (r * 255, g * 255, b * 255)"
        using d by (simp add: sector_rgb_def m dd field_simps)
    qed simp_all
  next
    case rb
    then have m: "mx = r" "mn = b" by (simp_all add: mx_def mn_def)
    have dd: "d = r - b" by (simp add: d_def m)
    have h: "h = 60 * ((g - b) / d + 6)" using hsl fwd rb by (simp add: m)
    show ?thesis
    proof (rule key [of "(g - b) / d" 0 1])
      show "0 \<le> (g - b) / d" using d rb by simp
      show "(g - b) / d < 1" using d rb by (simp add: dd)
      show "h = 360 * of_int 1 + 60 * (of_int 0 + (g - b) / d)" by (simp add: h)
      show "sector_rgb 0 ((g - b) / d) d mn = (r * 255, g * 255, b * 255)"
        using d by (simp add: sector_rgb_def m dd field_simps)
    qed simp_all
  next
    case rr
    then have m: "mx = r" "mn = b" by (simp_all add: mx_def mn_def)
    have dd: "d = r - b" by (simp add: d_def m)
    have h: "h = 60 * 7" using hsl fwd rr d by (simp add: m dd)
    show ?thesis
    proof (rule key [of 0 1 1])
      show "h = 360 * of_int 1 + 60 * (of_int 1 + 0)" by (simp add: h)
      show "sector_rgb 1 0 d mn = (r * 255, g * 255, b * 255)"
        using rr by (simp add: sector_rgb_def m dd field_simps)
    qed simp_all
  next
    case gb
    then have m: "mx = g" "mn = b" by (simp_all add: mx_def mn_def)
    have dd: "d = g - b" by (simp add: d_def m)
    have h: "h = 60 * ((b - r) / d + 2)" using hsl fwd gb by (simp add: m)
    show ?thesis
    proof (rule key [of "(b - r) / d + 1" 1 0])
      show "0 \<le> (b - r) / d + 1" using d gb by (simp add: dd field_simps)
      show "(b - r) / d + 1 < 1" using d gb by (simp add: field_simps)
      show "h = 360 * of_int 0 + 60 * (of_int 1 + ((b - r) / d + 1))" by (simp add: h)
      show "sector_rgb 1 ((b - r) / d + 1) d mn = (r * 255, g * 255, b * 255)"
        using d by (simp add: sector_rgb_def m dd field_simps)
    qed simp_all
  next
    case gr
    then have m: "mx = g" "mn = r" by (simp_all add: mx_def mn_def)
    have dd: "d = g - r" by (simp add: d_def m)
    have h: "h = 60 * ((b - r) / d + 2)" using hsl fwd gr by (simp add: m)
    show ?thesis
    proof (rule key [of "(b - r) / d" 2 0])
      show "0 \<le> (b - r) / d" using d gr by simp
      show "(b - r) / d < 1" using d gr by (simp add: dd)
      show "h = 360 * of_int 0 + 60 * (of_int 2 + (b - r) / d)" by (simp add: h)
      show "sector_rgb 2 ((b - r) / d) d mn = (r * 255, g * 255, b * 255)"
        using d by (simp add: sector_rgb_def m dd field_simps)
    qed simp_all
  next
    case gg
    then have m: "mx = g" "mn = r" by (simp_all add: mx_def mn_def)
    have dd: "d = g - r" by (simp add: d_def m)
    have h: "h = 60 * 3" using hsl fwd gg d by (simp add: m dd)
    show ?thesis
    proof (rule key [of 0 3 0])
      show "h = 360 * of_int 0 + 60 * (of_int 3 + 0)" by (simp add: h)
      show "sector_rgb 3 0 d mn = (r * 255, g * 255, b * 255)"
        using gg by (simp add: sector_rgb_def m dd field_simps)
    qed simp_all
  next
    case br
    then have m: "mx = b" "mn = r" by (simp_all add: mx_def mn_def)
    have dd: "d = b - r" by (simp add: d_def m)
    have h: "h = 60 * ((r - g) / d + 4)" using hsl fwd br by (simp add: m)
    show ?thesis
    proof (rule key [of "(r - g) / d + 1" 3 0])
      show "0 \<le> (r - g) / d + 1" using d br by (simp add: dd field_simps)
      show "(r - g) / d + 1 < 1" using d br by (simp add: field_simps)
      show "h = 360 * of_int 0 + 60 * (of_int 3 + ((r - g) / d + 1))" by (simp add: h)
      show "sector_rgb 3 ((r - g) / d + 1) d mn = (r * 255, g * 255, b * 255)"
        using d by (simp add: sector_rgb_def m dd field_simps)
    qed simp_all
  next
    case bg
    then have m: "mx = b" "mn = g" by (simp_all add: mx_def mn_def)
    have dd: "d = b - g" by (simp add: d_def m)
    have h: "h = 60 * ((r - g) / d + 4)" using hsl fwd bg by (simp add: m)
    show ?thesis
    proof (rule key [of "(r - g) / d" 4 0])
      show "0 \<le> (r - g) / d" using d bg by simp
      show "(r - g) / d < 1" using d bg by (simp add: dd)
      show "h = 360 * of_int 0 + 60 * (of_int 4 + (r - g) / d)" by (simp add: h)
      show "sector_rgb 4 ((r - g) / d) d mn = (r * 255, g * 255, b * 255)"
        using d by (simp add: sector_rgb_def m dd field_simps)
    qed simp_all
  qed
qed

lemma orange_hsl: "rgb_to_hsl 1 (1/2) 0 = (390, 1, 1/2)"
  by (simp add: rgb_to_hsl_def Let_def)

lemma orange_rgb: "hsl_to_rgb 390 1 (1/2) = (255, 255/2, 0)"
  by (simp add: hsl_to_rgb_def py_mod_def Let_def)

text \<open>
  C1. For every RGB triple in the unit cube whose components are not all equal, the
  inverse conversion applied to the forward conversion gives the triple back within
  \<open>1/1000\<close> per channel, once the inverse's 0 to 255 scale is divided out. In exact
  arithmetic the two agree exactly (\<open>roundtrip_exact\<close>).
\<close>

theorem roundtrip_within_tolerance:
  "0 \<le> r \<Longrightarrow> r \<le> 1 \<Longrightarrow> 0 \<le> g \<Longrightarrow> g \<le> 1 \<Longrightarrow> 0 \<le> b \<Longrightarrow> b \<le> 1 \<Longrightarrow>
   \<not> (r = g \<and> g = b) \<Longrightarrow>
   rgb_to_hsl r g b = (h, s, l) \<Longrightarrow> hsl_to_rgb h s l = (r', g', b') \<Longrightarrow>
   \<bar>r' / 255 - r\<bar> \<le> 1 / 1000 \<and> \<bar>g' / 255 - g\<bar> \<le> 1 / 1000 \<and> \<bar>b' / 255 - b\<bar> \<le> 1 / 1000"
proof -
  assume "0 \<le> r" "r \<le> 1" "0 \<le> g" "g \<le> 1" "0 \<le> b" "b \<le> 1" "\<not> (r = g \<and> g = b)"
    "rgb_to_hsl r g b = (h, s, l)"
  then have "hsl_to_rgb h s l = (r * 255, g * 255, b * 255)" by (rule roundtrip_exact)
  moreover assume "hsl_to_rgb h s l = (r', g', b')"
  ultimately have "r' = r * 255" "g' = g * 255" "b' = b * 255" by simp_all
  then show ?thesis by simp
qed

theorem roundtrip_within_tolerance_witness:
  "(0::real) \<le> 1 \<and> (1::real) \<le> 1 \<and> (0::real) \<le> 1/2 \<and> (1/2::real) \<le> 1 \<and> (0::real) \<le> 0
   \<and> \<not> ((1::real) = 1/2 \<and> (1/2::real) = 0)
   \<and> rgb_to_hsl 1 (1/2) 0 = (390, 1, 1/2) \<and> hsl_to_rgb 390 1 (1/2) = (255, 255/2, 0)
   \<and> \<bar>255 / 255 - (1::real)\<bar> \<le> 1 / 1000 \<and> \<bar>(255/2) / 255 - (1/2::real)\<bar> \<le> 1 / 1000
   \<and> \<bar>0 / 255 - (0::real)\<bar> \<le> 1 / 1000"
  using roundtrip_within_tolerance [of 1 "1/2" 0 390 1 "1/2" 255 "255/2" 0]
  by (simp add: orange_hsl orange_rgb)

end
